theory Spec2Isabelle
  imports Complex_Main
begin

section \<open>PyTTa \<open>SignalObj\<close>: the dual-domain signal and its operators\<close>

text \<open>
  A shallow embedding of \<^verbatim>\<open>pytta/classes.py\<close>: the classes \<^verbatim>\<open>PyTTaObj\<close> and
  \<^verbatim>\<open>SignalObj\<close>, the two property setters \<^verbatim>\<open>timeSignal\<close> and \<^verbatim>\<open>freqSignal\<close>, and the
  operators \<^verbatim>\<open>__truediv__\<close>, \<^verbatim>\<open>__add__\<close> and \<^verbatim>\<open>__sub__\<close>.

  Numbers: Python's \<^verbatim>\<open>float\<close> and NumPy's \<^verbatim>\<open>float64\<close>/\<^verbatim>\<open>complex128\<close> are read as the
  real and complex numbers they round, so every statement below is about exact arithmetic;
  rounding is not modelled. Warnings that NumPy prints are not modelled either, only the
  value returned or the exception raised.
\<close>

subsection \<open>Python values and exceptions\<close>

text \<open>
  The built-in exceptions that the modelled code can raise. \<open>NonFinite\<close> is not an
  exception: NumPy divides by a zero coefficient without raising and goes on with \<^verbatim>\<open>inf\<close>
  or \<^verbatim>\<open>nan\<close> in the array. Arrays of this model hold numbers only, so the model does not
  follow such a run: it ends in \<open>Inl NonFinite\<close> once the statement that divides has
  completed (an exception raised by that statement comes first).
\<close>

datatype error =
    TypeError | ZeroDivisionError | OverflowError | ValueError | IndexError | AttributeError
  | UnboundLocalError | NonFinite

text \<open>
  The values a caller passes for the untyped parameters of the constructors: \<^verbatim>\<open>None\<close>, a
  string, an int or a float (a finite one: callers that pass \<^verbatim>\<open>inf\<close> or \<^verbatim>\<open>nan\<close> are outside
  this model).
\<close>

datatype pyval = PNone | PStr string | PInt int | PFloat real

fun truthy :: "pyval \<Rightarrow> bool" where
  "truthy PNone = False"
| "truthy (PStr s) = (s \<noteq> [])"
| "truthy (PInt i) = (i \<noteq> 0)"
| "truthy (PFloat r) = (r \<noteq> 0)"

fun as_number :: "pyval \<Rightarrow> real option" where
  "as_number (PInt i) = Some (real_of_int i)"
| "as_number (PFloat r) = Some r"
| "as_number _ = None"

text \<open>
  \<^verbatim>\<open>a / b\<close> for a number \<open>a\<close>, as in \<^verbatim>\<open>self.numSamples / self.samplingRate\<close> and
  \<^verbatim>\<open>1 / self.samplingRate\<close>: \<^verbatim>\<open>TypeError\<close> when \<open>b\<close> is no number, \<^verbatim>\<open>ZeroDivisionError\<close> when
  it is zero. Neither quotient raises for being too large: by an int \<open>b\<close> it is at most
  \<open>a\<close> in magnitude, a sample count or 1, and a division by a float overflows silently.
\<close>

definition py_truediv :: "real \<Rightarrow> pyval \<Rightarrow> error + real" where
  "py_truediv a b =
     (case as_number b of
        None \<Rightarrow> Inl TypeError
      | Some r \<Rightarrow> if r = 0 then Inl ZeroDivisionError else Inr (a / r))"

text \<open>
  \<^verbatim>\<open>(self.numSamples - 1) * self.samplingRate / self.numSamples\<close>, in its two steps. The
  product of two ints is an int, of any size; the product of an int and a float is a float;
  an int times a string repeats the string. The division of an int by the sample count is
  Python's true division of ints, which raises \<^verbatim>\<open>OverflowError\<close> when the quotient is too
  large for a float: \<open>float_overflow\<close> is the least magnitude that rounds beyond the largest
  float64.
\<close>

definition float_overflow :: real where
  "float_overflow = 2 ^ 1024 - 2 ^ 970"

definition py_mult :: "int \<Rightarrow> pyval \<Rightarrow> error + pyval" where
  "py_mult a b =
     (case b of
        PInt i \<Rightarrow> Inr (PInt (a * i))
      | PFloat r \<Rightarrow> Inr (PFloat (real_of_int a * r))
      | PStr t \<Rightarrow> Inr (PStr (concat (replicate (nat a) t)))
      | PNone \<Rightarrow> Inl TypeError)"

definition truediv_by_count :: "pyval \<Rightarrow> nat \<Rightarrow> error + real" where
  "truediv_by_count p n =
     (case p of
        PInt x \<Rightarrow>
          if n = 0 then Inl ZeroDivisionError
          else if float_overflow \<le> \<bar>real_of_int x / real n\<bar> then Inl OverflowError
          else Inr (real_of_int x / real n)
      | PFloat x \<Rightarrow> if n = 0 then Inl ZeroDivisionError else Inr (x / real n)
      | _ \<Rightarrow> Inl TypeError)"

subsection \<open>NumPy arrays\<close>

text \<open>
  An \<^verbatim>\<open>ndarray\<close> is its shape and its elements in row-major (C) order; an array holds as
  many elements as the product of its shape.
\<close>

datatype 'a ndarray = NDArray (shape: "nat list") (flat: "'a list")

text \<open>The arrays written \<^verbatim>\<open>np.array([x0, x1, ...])\<close> and \<^verbatim>\<open>np.array([[..], [..]])\<close>
  (rows of equal length \<open>m\<close>).\<close>

definition array1 :: "'a list \<Rightarrow> 'a ndarray" where
  "array1 xs = NDArray [length xs] xs"

definition array2 :: "nat \<Rightarrow> 'a list list \<Rightarrow> 'a ndarray" where
  "array2 m rows = NDArray [length rows, m] (concat rows)"

text \<open>\<^verbatim>\<open>a.ndim\<close>, which the code writes \<^verbatim>\<open>np.size(a.shape)\<close>.\<close>

definition ndim :: "'a ndarray \<Rightarrow> nat" where
  "ndim a = length (shape a)"

text \<open>\<^verbatim>\<open>len(a)\<close>: the size of the first axis; a 0-dimensional array has no length.\<close>

definition len :: "'a ndarray \<Rightarrow> error + nat" where
  "len a = (case shape a of [] \<Rightarrow> Inl TypeError | n # _ \<Rightarrow> Inr n)"

text \<open>Multi-index of a flat position and back, in row-major order.\<close>

fun unravel :: "nat list \<Rightarrow> nat \<Rightarrow> nat list" where
  "unravel [] j = []"
| "unravel (d # ds) j = (j div prod_list ds) # unravel ds (j mod prod_list ds)"

fun ravel :: "nat list \<Rightarrow> nat list \<Rightarrow> nat" where
  "ravel (d # ds) (i # is) = i * prod_list ds + ravel ds is"
| "ravel _ _ = 0"

text \<open>\<^verbatim>\<open>a.transpose()\<close> reverses the order of the axes:
  \<open>a.T[i\<^sub>k, ..., i\<^sub>0] = a[i\<^sub>0, ..., i\<^sub>k]\<close>.\<close>

definition transpose_nd :: "'a ndarray \<Rightarrow> 'a ndarray" where
  "transpose_nd a =
     NDArray (rev (shape a))
       (map (\<lambda>j. flat a ! ravel (shape a) (rev (unravel (rev (shape a)) j)))
            [0..<length (flat a)])"

text \<open>The rows of length \<open>n\<close> that a flat list splits into.\<close>

definition rows_of :: "nat \<Rightarrow> 'a list \<Rightarrow> 'a list list" where
  "rows_of n xs = map (\<lambda>i. take n (drop (i * n) xs)) [0..<length xs div n]"

text \<open>
  The discrete Fourier transform that \<^verbatim>\<open>np.fft.fft\<close> computes on one row,
  \<open>X\<^sub>k = \<Sum>\<^sub>n x\<^sub>n exp(-2\<pi>i k n / N)\<close>, and the inverse that \<^verbatim>\<open>np.fft.ifft\<close> computes,
  \<open>x\<^sub>n = (1/N) \<Sum>\<^sub>k X\<^sub>k exp(2\<pi>i k n / N)\<close>. Both are the exact sums: NumPy computes them
  in float64, and its rounding error is not modelled.
\<close>

definition dft :: "complex list \<Rightarrow> complex list" where
  "dft xs =
     map (\<lambda>k. sum_list (map (\<lambda>n. xs ! n * cis (- (2 * pi * real k * real n / real (length xs))))
                              [0..<length xs]))
         [0..<length xs]"

definition idft :: "complex list \<Rightarrow> complex list" where
  "idft ys =
     map (\<lambda>n. sum_list (map (\<lambda>k. ys ! k * cis (2 * pi * real k * real n / real (length ys)))
                              [0..<length ys])
               / of_nat (length ys))
         [0..<length ys]"

text \<open>
  \<^verbatim>\<open>np.fft.fft(a)\<close> and \<^verbatim>\<open>np.fft.ifft(a)\<close> transform along the last axis. NumPy refuses
  a last axis of length 0 (\<^verbatim>\<open>ValueError: Invalid number of FFT data points\<close>) and a
  0-dimensional array.
\<close>

definition along_last :: "(complex list \<Rightarrow> complex list) \<Rightarrow> complex ndarray \<Rightarrow> error + complex ndarray" where
  "along_last f a =
     (case rev (shape a) of
        [] \<Rightarrow> Inl IndexError
      | n # _ \<Rightarrow>
          if n = 0 then Inl ValueError
          else Inr (NDArray (shape a) (concat (map f (rows_of n (flat a))))))"

definition fft :: "complex ndarray \<Rightarrow> error + complex ndarray" where
  "fft a = along_last dft a"

definition ifft :: "complex ndarray \<Rightarrow> error + complex ndarray" where
  "ifft a = along_last idft a"

text \<open>Element-wise maps, such as \<^verbatim>\<open>np.real\<close>.\<close>

definition map_nd :: "('a \<Rightarrow> 'b) \<Rightarrow> 'a ndarray \<Rightarrow> 'b ndarray" where
  "map_nd f a = NDArray (shape a) (map f (flat a))"

text \<open>
  \<^verbatim>\<open>np.linspace(start, stop, num)\<close> (end point included) and
  \<^verbatim>\<open>np.arange(start, stop, step)\<close>, in exact arithmetic. The length of \<^verbatim>\<open>np.arange\<close> is the
  ceiling of \<open>(stop - start) / step\<close>; in float64 the rounding of that quotient can make
  it one more than here.
\<close>

definition linspace :: "real \<Rightarrow> real \<Rightarrow> nat \<Rightarrow> real list" where
  "linspace start stop num =
     (if num = 0 then []
      else if num = 1 then [start]
      else map (\<lambda>k. start + real k * ((stop - start) / real (num - 1))) [0..<num - 1] @ [stop])"

definition arange :: "real \<Rightarrow> real \<Rightarrow> real \<Rightarrow> real list" where
  "arange start stop step =
     map (\<lambda>k. start + real k * step) [0..<nat \<lceil>(stop - start) / step\<rceil>]"

text \<open>
  What the attribute \<^verbatim>\<open>fftDegree\<close> holds: the value given to the constructor, or the float
  that a setter has computed as \<^verbatim>\<open>np.log2(numSamples)\<close>, which is \<^verbatim>\<open>-inf\<close> for 0 samples
  (NumPy prints a warning and raises nothing).
\<close>

datatype degree = Given pyval | Degree real | NegInf

definition log2 :: "nat \<Rightarrow> degree" where
  "log2 n = (if n = 0 then NegInf else Degree (log 2 (real n)))"

subsection \<open>The object: \<^verbatim>\<open>PyTTaObj\<close> and \<^verbatim>\<open>SignalObj\<close>\<close>

text \<open>
  The attributes of a \<^verbatim>\<open>SignalObj\<close> (the source names them with a leading underscore and
  reads them through properties of the name used here). The first seven are set by
  \<^verbatim>\<open>PyTTaObj.__init__\<close>; the last four exist only once a setter has written them
  (\<open>None\<close>: the attribute is absent). Arrays hold complex numbers, a real sample being
  a complex number with imaginary part 0.
\<close>

record SignalObj =
  samplingRate :: pyval
  fftDegree :: degree
  timeLength :: pyval
  numSamples :: pyval
  freqMin :: pyval
  freqMax :: pyval
  comment :: pyval
  domain :: pyval
  timeVector :: "real list option"
  freqVector :: "real list option"
  timeSignal :: "complex ndarray option"
  freqSignal :: "complex ndarray option"

text \<open>
  \<^verbatim>\<open>PyTTaObj.__init__(self, samplingRate=None, fftDegree=None, timeLength=None,
  numSamples=None, freqMin=None, freqMax=None, comment="No comments.")\<close>, called with
  positional arguments \<open>args\<close> and keyword arguments \<open>kwargs\<close>. Python raises
  \<^verbatim>\<open>TypeError\<close> for too many positional arguments, for an unknown keyword and for a
  parameter given twice.
\<close>

definition param_names :: "string list" where
  "param_names =
     [''samplingRate'', ''fftDegree'', ''timeLength'', ''numSamples'',
      ''freqMin'', ''freqMax'', ''comment'']"

definition param_defaults :: "pyval list" where
  "param_defaults = [PNone, PNone, PNone, PNone, PNone, PNone, PStr ''No comments.'']"

definition bind_param :: "pyval list \<Rightarrow> (string \<times> pyval) list \<Rightarrow> nat \<Rightarrow> pyval" where
  "bind_param args kwargs i =
     (if i < length args then args ! i
      else case map_of kwargs (param_names ! i) of
             Some v \<Rightarrow> v
           | None \<Rightarrow> param_defaults ! i)"

definition PyTTaObj_init :: "pyval list \<Rightarrow> (string \<times> pyval) list \<Rightarrow> error + SignalObj" where
  "PyTTaObj_init args kwargs =
     (if length args > length param_names then Inl TypeError
      else if \<not> list_all (\<lambda>(k, v). k \<in> set param_names) kwargs then Inl TypeError
      else if \<not> list_all (\<lambda>(k, v). k \<notin> set (take (length args) param_names)) kwargs
        then Inl TypeError
      else Inr \<lparr> samplingRate = bind_param args kwargs 0,
                 fftDegree = Given (bind_param args kwargs 1),
                 timeLength = bind_param args kwargs 2,
                 numSamples = bind_param args kwargs 3,
                 freqMin = bind_param args kwargs 4,
                 freqMax = bind_param args kwargs 5,
                 comment = bind_param args kwargs 6,
                 domain = PNone,
                 timeVector = None, freqVector = None,
                 timeSignal = None, freqSignal = None \<rparr>)"

text \<open>
  The setter of \<^verbatim>\<open>timeSignal\<close>. It assigns attribute after attribute, so when a statement
  raises, the attributes assigned before it keep their new values: the model returns the
  exception (if any) together with the object as the setter leaves it.
\<close>

definition timeSignal_set :: "SignalObj \<Rightarrow> complex ndarray \<Rightarrow> error option \<times> SignalObj" where
  "timeSignal_set self newSignal =
     (let s1 = self\<lparr>timeSignal := Some newSignal\<rparr> in
      case len newSignal of
        Inl e \<Rightarrow> (Some e, s1)
      | Inr n \<Rightarrow>
     (let s2 = s1\<lparr>numSamples := PInt (int n)\<rparr>;
          s3 = s2\<lparr>fftDegree := log2 n\<rparr> in
      case py_truediv (real n) (samplingRate s3) of
        Inl e \<Rightarrow> (Some e, s3)
      | Inr tlen \<Rightarrow>
     (let s4 = s3\<lparr>timeLength := PFloat tlen\<rparr> in
      case py_truediv 1 (samplingRate s4) of
        Inl e \<Rightarrow> (Some e, s4)
      | Inr dt \<Rightarrow>
     (let s5 = s4\<lparr>timeVector := Some (linspace 0 (tlen - dt) n)\<rparr> in
      case py_mult (int n - 1) (samplingRate s5) of
        Inl e \<Rightarrow> (Some e, s5)
      | Inr p \<Rightarrow>
      case truediv_by_count p n of
        Inl e \<Rightarrow> (Some e, s5)
      | Inr stop \<Rightarrow>
     (let s6 = s5\<lparr>freqVector := Some (linspace 0 stop n)\<rparr> in
      case fft (transpose_nd newSignal) of
        Inl e \<Rightarrow> (Some e, s6)
      | Inr F \<Rightarrow> (None, s6\<lparr>freqSignal := Some (transpose_nd F)\<rparr>))))))"

text \<open>The setter of \<^verbatim>\<open>freqSignal\<close>, in the same way.\<close>

definition freqSignal_set :: "SignalObj \<Rightarrow> complex ndarray \<Rightarrow> error option \<times> SignalObj" where
  "freqSignal_set self newSignal =
     (let s1 = self\<lparr>freqSignal := Some newSignal\<rparr> in
      case ifft (transpose_nd newSignal) of
        Inl e \<Rightarrow> (Some e, s1)
      | Inr t \<Rightarrow>
     (let ts = transpose_nd (map_nd (\<lambda>z. complex_of_real (Re z)) t);
          s2 = s1\<lparr>timeSignal := Some ts\<rparr> in
      case len ts of
        Inl e \<Rightarrow> (Some e, s2)
      | Inr n \<Rightarrow>
     (let s3 = s2\<lparr>numSamples := PInt (int n)\<rparr>;
          s4 = s3\<lparr>fftDegree := log2 n\<rparr> in
      case py_truediv (real n) (samplingRate s4) of
        Inl e \<Rightarrow> (Some e, s4)
      | Inr tlen \<Rightarrow>
     (let s5 = s4\<lparr>timeLength := PFloat tlen\<rparr> in
      case py_truediv 1 (samplingRate s5) of
        Inl e \<Rightarrow> (Some e, s5)
      | Inr dt \<Rightarrow>
     (let s6 = s5\<lparr>timeVector := Some (arange 0 tlen dt)\<rparr> in
      case py_mult (int n - 1) (samplingRate s6) of
        Inl e \<Rightarrow> (Some e, s6)
      | Inr p \<Rightarrow>
      case truediv_by_count p n of
        Inl e \<Rightarrow> (Some e, s6)
      | Inr stop \<Rightarrow> (None, s6\<lparr>freqVector := Some (linspace 0 stop n)\<rparr>))))))"

text \<open>
  \<^verbatim>\<open>domain\<close> is a property with a getter only: assigning \<^verbatim>\<open>self.domain = ...\<close> raises
  \<^verbatim>\<open>AttributeError\<close> and changes nothing.
\<close>

definition domain_set :: "SignalObj \<Rightarrow> pyval \<Rightarrow> error option \<times> SignalObj" where
  "domain_set self v = (Some AttributeError, self)"

text \<open>
  \<^verbatim>\<open>SignalObj.__init__(self, signalArray=np.array([0]), domain='time', *args, **kwargs)\<close>.
  \<^verbatim>\<open>size_check(signalArray)\<close> is the number of dimensions of the array given (its test
  \<^verbatim>\<open>inputArray == []\<close> is false for an array). An exception leaves the caller without an
  object. \<^verbatim>\<open>domain or args[1]\<close> takes the second extra
  positional argument when the \<^verbatim>\<open>domain\<close> argument is falsy, and raises \<^verbatim>\<open>IndexError\<close> when there is
  none.
\<close>

definition raise_or :: "error option \<times> SignalObj \<Rightarrow> error + SignalObj" where
  "raise_or r = (case r of (Some e, _) \<Rightarrow> Inl e | (None, s) \<Rightarrow> Inr s)"

definition SignalObj_init ::
  "complex ndarray \<Rightarrow> pyval \<Rightarrow> pyval list \<Rightarrow> (string \<times> pyval) list \<Rightarrow> error + SignalObj" where
  "SignalObj_init signalArray dmn args kwargs =
     (if ndim signalArray > 2 then Inl AttributeError
      else case PyTTaObj_init args kwargs of
        Inl e \<Rightarrow> Inl e
      | Inr s0 \<Rightarrow>
          if \<not> truthy dmn \<and> length args < 2 then Inl IndexError
          else
     (let s1 = s0\<lparr>domain := (if truthy dmn then dmn else args ! 1)\<rparr> in
      if domain s1 = PStr ''freq'' then raise_or (freqSignal_set s1 signalArray)
      else if domain s1 = PStr ''time'' then raise_or (timeSignal_set s1 signalArray)
      else case timeSignal_set s1 signalArray of
             (Some e, _) \<Rightarrow> Inl e
           | (None, s2) \<Rightarrow> raise_or (domain_set s2 (PStr ''time''))))"

subsection \<open>Indexing and broadcasting\<close>

text \<open>Sequencing of steps that may raise.\<close>

definition bindE :: "error + 'a \<Rightarrow> ('a \<Rightarrow> error + 'b) \<Rightarrow> error + 'b" where
  "bindE m f = (case m of Inl e \<Rightarrow> Inl e | Inr x \<Rightarrow> f x)"

text \<open>Reading an attribute that no setter has written yet raises \<^verbatim>\<open>AttributeError\<close>.\<close>

definition attr :: "'a option \<Rightarrow> error + 'a" where
  "attr x = (case x of None \<Rightarrow> Inl AttributeError | Some v \<Rightarrow> Inr v)"

text \<open>\<^verbatim>\<open>a[:, c]\<close>: needs two dimensions at least and \<open>c\<close> within the second.\<close>

definition getcol :: "'a ndarray \<Rightarrow> nat \<Rightarrow> error + 'a ndarray" where
  "getcol a c =
     (case shape a of
        d0 # d1 # rest \<Rightarrow>
          if c < d1
          then Inr (NDArray (d0 # rest)
                 (concat (map (\<lambda>i. take (prod_list rest)
                                     (drop ((i * d1 + c) * prod_list rest) (flat a)))
                              [0..<d0])))
          else Inl IndexError
      | _ \<Rightarrow> Inl IndexError)"

text \<open>
  NumPy's broadcasting of two shapes: aligned at the last axis, two sizes agree when they
  are equal or one of them is 1.
\<close>

fun broadcast_rev :: "nat list \<Rightarrow> nat list \<Rightarrow> nat list option" where
  "broadcast_rev [] ys = Some ys"
| "broadcast_rev xs [] = Some xs"
| "broadcast_rev (x # xs) (y # ys) =
     (if x = y \<or> y = 1 then map_option ((#) x) (broadcast_rev xs ys)
      else if x = 1 then map_option ((#) y) (broadcast_rev xs ys)
      else None)"

definition broadcast_shapes :: "nat list \<Rightarrow> nat list \<Rightarrow> nat list option" where
  "broadcast_shapes s t = map_option rev (broadcast_rev (rev s) (rev t))"

text \<open>The flat position, in an array of shape \<open>sh\<close>, of the element that a multi-index \<open>idx\<close>
  of the broadcast shape reads.\<close>

definition bindex :: "nat list \<Rightarrow> nat list \<Rightarrow> nat" where
  "bindex sh idx =
     ravel sh (map2 (\<lambda>d i. if d = 1 then 0 else i) sh (drop (length idx - length sh) idx))"

definition broadcast_op ::
  "('a \<Rightarrow> 'a \<Rightarrow> 'a) \<Rightarrow> 'a ndarray \<Rightarrow> 'a ndarray \<Rightarrow> error + 'a ndarray" where
  "broadcast_op f a b =
     (case broadcast_shapes (shape a) (shape b) of
        None \<Rightarrow> Inl ValueError
      | Some s \<Rightarrow>
          Inr (NDArray s
                 (map (\<lambda>j. f (flat a ! bindex (shape a) (unravel s j))
                             (flat b ! bindex (shape b) (unravel s j)))
                      [0..<prod_list s])))"

text \<open>\<^verbatim>\<open>a + b\<close>, \<^verbatim>\<open>a - b\<close> and \<^verbatim>\<open>a / b\<close> on arrays.\<close>

definition np_add :: "complex ndarray \<Rightarrow> complex ndarray \<Rightarrow> error + complex ndarray" where
  "np_add a b = broadcast_op (+) a b"

definition np_subtract :: "complex ndarray \<Rightarrow> complex ndarray \<Rightarrow> error + complex ndarray" where
  "np_subtract a b = broadcast_op (-) a b"

definition np_divide :: "complex ndarray \<Rightarrow> complex ndarray \<Rightarrow> error + complex ndarray" where
  "np_divide a b = broadcast_op (/) a b"

text \<open>The end of a statement that has divided by the array \<open>b\<close>: the run is followed only
  when no divisor was zero.\<close>

definition finite_only :: "complex ndarray \<Rightarrow> 'a \<Rightarrow> error + 'a" where
  "finite_only b x = (if 0 \<in> set (flat b) then Inl NonFinite else Inr x)"

text \<open>\<^verbatim>\<open>a[:, k] = v\<close>, in place: needs two dimensions at least, \<open>k\<close> within the second, and a
  value that broadcasts to the shape of \<^verbatim>\<open>a[:, k]\<close>.\<close>

definition setcol :: "'a ndarray \<Rightarrow> nat \<Rightarrow> 'a ndarray \<Rightarrow> error + 'a ndarray" where
  "setcol a k v =
     (case shape a of
        d0 # d1 # rest \<Rightarrow>
          if k < d1
          then (if broadcast_shapes (shape v) (d0 # rest) = Some (d0 # rest)
                then Inr (NDArray (shape a)
                       (map (\<lambda>j. let idx = unravel (shape a) j
                                  in if idx ! 1 = k
                                     then flat v ! bindex (shape v) (idx ! 0 # drop 2 idx)
                                     else flat a ! j)
                            [0..<length (flat a)]))
                else Inl ValueError)
          else Inl IndexError
      | _ \<Rightarrow> Inl IndexError)"

subsection \<open>\<^verbatim>\<open>size_check\<close> and \<^verbatim>\<open>num_channels\<close>\<close>

text \<open>
  \<^verbatim>\<open>self.size_check()\<close> without an argument: the number of dimensions of
  \<^verbatim>\<open>self.timeSignal[:]\<close> (slicing a 0-dimensional array raises \<^verbatim>\<open>IndexError\<close>).
\<close>

definition size_check :: "SignalObj \<Rightarrow> error + nat" where
  "size_check self =
     bindE (attr (timeSignal self))
       (\<lambda>a. if ndim a = 0 then Inl IndexError else Inr (ndim a))"

text \<open>\<^verbatim>\<open>np.shape(self.timeSignal)[1]\<close>, and 1 when the shape has no second entry.\<close>

definition num_channels :: "SignalObj \<Rightarrow> error + nat" where
  "num_channels self =
     bindE (attr (timeSignal self))
       (\<lambda>a. Inr (case shape a of d0 # d1 # rest \<Rightarrow> d1 | _ \<Rightarrow> 1))"

subsection \<open>The operators\<close>

text \<open>The right operand: another \<^verbatim>\<open>SignalObj\<close>, or a value of any other type (the operators
  test \<^verbatim>\<open>type(other) != type(self)\<close>).\<close>

datatype operand = Signal SignalObj | NotSignal pyval

text \<open>\<^verbatim>\<open>SignalObj(samplingRate=self.samplingRate)\<close>: the default array \<^verbatim>\<open>np.array([0])\<close> in the
  time domain.\<close>

definition new_result :: "SignalObj \<Rightarrow> error + SignalObj" where
  "new_result self =
     SignalObj_init (array1 [0]) (PStr ''time'') [] [(''samplingRate'', samplingRate self)]"

text \<open>
  \<^verbatim>\<open>__truediv__\<close>, both operands with more than one dimension: the inner loop over
  \<open>channelB\<close> stores into \<^verbatim>\<open>result.freqSignal[:, i + channelB]\<close>, and the outer loop sets
  \<^verbatim>\<open>i = channelB\<close> after it (unbound when the inner loop had nothing to run over).
\<close>

fun truediv_inner ::
  "SignalObj \<Rightarrow> SignalObj \<Rightarrow> nat \<Rightarrow> nat \<Rightarrow> nat list \<Rightarrow> SignalObj \<Rightarrow> error + SignalObj" where
  "truediv_inner self other channelA i [] result = Inr result"
| "truediv_inner self other channelA i (channelB # rest) result =
     bindE (attr (freqSignal self)) (\<lambda>fa.
     bindE (getcol fa channelA) (\<lambda>ca.
     bindE (attr (freqSignal other)) (\<lambda>fb.
     bindE (getcol fb channelB) (\<lambda>cb.
     bindE (np_divide ca cb) (\<lambda>q.
     bindE (attr (freqSignal result)) (\<lambda>fr.
     bindE (setcol fr (i + channelB) q) (\<lambda>fr'.
     bindE (finite_only cb (result\<lparr>freqSignal := Some fr'\<rparr>)) (\<lambda>r.
     truediv_inner self other channelA i rest r))))))))"

fun truediv_outer ::
  "SignalObj \<Rightarrow> SignalObj \<Rightarrow> nat \<Rightarrow> nat list \<Rightarrow> SignalObj \<Rightarrow> error + SignalObj" where
  "truediv_outer self other i [] result = Inr result"
| "truediv_outer self other i (channelA # rest) result =
     bindE (num_channels other) (\<lambda>m.
     bindE (truediv_inner self other channelA i [0..<m] result) (\<lambda>r.
     if m = 0 then Inl UnboundLocalError
     else truediv_outer self other (m - 1) rest r))"

text \<open>One operand with more than one dimension: each pass of the loop assigns the whole of
  \<^verbatim>\<open>result.freqSignal\<close> through its setter.\<close>

fun truediv_self_multi ::
  "SignalObj \<Rightarrow> SignalObj \<Rightarrow> nat list \<Rightarrow> SignalObj \<Rightarrow> error + SignalObj" where
  "truediv_self_multi self other [] result = Inr result"
| "truediv_self_multi self other (channel # rest) result =
     bindE (attr (freqSignal self)) (\<lambda>fa.
     bindE (getcol fa channel) (\<lambda>ca.
     bindE (attr (freqSignal other)) (\<lambda>fb.
     bindE (np_divide ca fb) (\<lambda>q.
     bindE (raise_or (freqSignal_set result q)) (\<lambda>r.
     bindE (finite_only fb r) (\<lambda>r.
     truediv_self_multi self other rest r))))))"

fun truediv_other_multi ::
  "SignalObj \<Rightarrow> SignalObj \<Rightarrow> nat list \<Rightarrow> SignalObj \<Rightarrow> error + SignalObj" where
  "truediv_other_multi self other [] result = Inr result"
| "truediv_other_multi self other (channel # rest) result =
     bindE (attr (freqSignal self)) (\<lambda>fa.
     bindE (attr (freqSignal other)) (\<lambda>fb.
     bindE (getcol fb channel) (\<lambda>cb.
     bindE (np_divide fa cb) (\<lambda>q.
     bindE (raise_or (freqSignal_set result q)) (\<lambda>r.
     bindE (finite_only cb r) (\<lambda>r.
     truediv_other_multi self other rest r))))))"

definition truediv :: "SignalObj \<Rightarrow> operand \<Rightarrow> error + SignalObj" where
  "truediv self other' =
     (case other' of
        NotSignal v \<Rightarrow> Inl TypeError
      | Signal other \<Rightarrow>
          bindE (new_result self) (\<lambda>r0.
          let result = r0\<lparr>domain := PStr ''freq''\<rparr> in
          bindE (size_check self) (\<lambda>da.
          if da > 1 then
            bindE (size_check other) (\<lambda>db.
            if db > 1 then
              bindE (num_channels self) (\<lambda>n. truediv_outer self other 0 [0..<n] result)
            else
              bindE (num_channels self) (\<lambda>n. truediv_self_multi self other [0..<n] result))
          else
            bindE (size_check other) (\<lambda>db.
            if db > 1 then
              bindE (num_channels self) (\<lambda>n. truediv_other_multi self other [0..<n] result)
            else
              bindE (attr (freqSignal self)) (\<lambda>fa.
              bindE (attr (freqSignal other)) (\<lambda>fb.
              bindE (np_divide fa fb) (\<lambda>q.
              bindE (raise_or (freqSignal_set result q)) (\<lambda>r.
              finite_only fb r))))))))"

text \<open>
  \<^verbatim>\<open>__add__\<close> and \<^verbatim>\<open>__sub__\<close> are the same code up to the operation \<open>f\<close> on arrays
  (\<open>np_add\<close> or \<open>np_subtract\<close>). After creating \<open>result\<close> both assign
  \<^verbatim>\<open>result.domain = 'time'\<close>, through the property. The statements after that:
  with both operands of more than one dimension the inner loop asks for
  \<^verbatim>\<open>range(other.timeSignal.shape)\<close> (\<^verbatim>\<open>__add__\<close>) or \<^verbatim>\<open>range(other.num_channels)\<close>
  (\<^verbatim>\<open>__sub__\<close>), a \<^verbatim>\<open>TypeError\<close> in both; with only \<open>self\<close> of more than one dimension the
  loop assigns \<^verbatim>\<open>result.freqSignal\<close>; otherwise \<^verbatim>\<open>result.timeSignal\<close>.
\<close>

fun time_self_multi ::
  "(complex ndarray \<Rightarrow> complex ndarray \<Rightarrow> error + complex ndarray) \<Rightarrow>
   SignalObj \<Rightarrow> SignalObj \<Rightarrow> nat list \<Rightarrow> SignalObj \<Rightarrow> error + SignalObj" where
  "time_self_multi f self other [] result = Inr result"
| "time_self_multi f self other (channel # rest) result =
     bindE (attr (timeSignal self)) (\<lambda>ta.
     bindE (getcol ta channel) (\<lambda>ca.
     bindE (attr (timeSignal other)) (\<lambda>tb.
     bindE (f ca tb) (\<lambda>q.
     bindE (raise_or (freqSignal_set result q)) (\<lambda>r.
     time_self_multi f self other rest r)))))"

fun time_other_multi ::
  "(complex ndarray \<Rightarrow> complex ndarray \<Rightarrow> error + complex ndarray) \<Rightarrow>
   SignalObj \<Rightarrow> SignalObj \<Rightarrow> nat list \<Rightarrow> SignalObj \<Rightarrow> error + SignalObj" where
  "time_other_multi f self other [] result = Inr result"
| "time_other_multi f self other (channel # rest) result =
     bindE (attr (timeSignal self)) (\<lambda>ta.
     bindE (attr (timeSignal other)) (\<lambda>tb.
     bindE (getcol tb channel) (\<lambda>cb.
     bindE (f ta cb) (\<lambda>q.
     bindE (raise_or (timeSignal_set result q)) (\<lambda>r.
     time_other_multi f self other rest r)))))"

definition time_op ::
  "(complex ndarray \<Rightarrow> complex ndarray \<Rightarrow> error + complex ndarray) \<Rightarrow>
   SignalObj \<Rightarrow> operand \<Rightarrow> error + SignalObj" where
  "time_op f self other' =
     (case other' of
        NotSignal v \<Rightarrow> Inl TypeError
      | Signal other \<Rightarrow>
          bindE (new_result self) (\<lambda>r0.
          bindE (raise_or (domain_set r0 (PStr ''time''))) (\<lambda>result.
          bindE (size_check self) (\<lambda>da.
          if da > 1 then
            bindE (size_check other) (\<lambda>db.
            if db > 1 then
              bindE (num_channels self) (\<lambda>n. if n = 0 then Inr result else Inl TypeError)
            else
              bindE (num_channels self) (\<lambda>n. time_self_multi f self other [0..<n] result))
          else
            bindE (size_check other) (\<lambda>db.
            if db > 1 then
              bindE (num_channels self) (\<lambda>n. time_other_multi f self other [0..<n] result)
            else
              bindE (attr (timeSignal self)) (\<lambda>ta.
              bindE (attr (timeSignal other)) (\<lambda>tb.
              bindE (f ta tb) (\<lambda>q.
              raise_or (timeSignal_set result q)))))))))"

definition add :: "SignalObj \<Rightarrow> operand \<Rightarrow> error + SignalObj" where
  "add self other = time_op np_add self other"

definition sub :: "SignalObj \<Rightarrow> operand \<Rightarrow> error + SignalObj" where
  "sub self other = time_op np_subtract self other"

section \<open>Facts about the model\<close>

subsection \<open>The inverse transform undoes the transform\<close>

lemma root_of_unity_sum:
  fixes N n m :: nat
  assumes "n < N" "m < N"
  shows "(\<Sum>k<N. cis (2 * pi * real k * (real n - real m) / real N)) = (if n = m then of_nat N else 0)"
proof (cases "n = m")
  case True
  then show ?thesis by simp
next
  case False
  define z where "z = cis (2 * pi * (real n - real m) / real N)"
  have N: "0 < N" using assms by simp
  have pow: "cis (2 * pi * real k * (real n - real m) / real N) = z ^ k" for k
    unfolding z_def DeMoivre by (simp add: algebra_simps)
  have zN: "z ^ N = 1"
  proof -
    have "real N * (2 * pi * (real n - real m) / real N) = 2 * pi * (real_of_int (int n - int m))"
      using N by simp
    then have "z ^ N = cis (2 * pi * (real_of_int (int n - int m)))"
      unfolding z_def DeMoivre by (simp only:)
    also have "\<dots> = 1" by (rule cis_multiple_2pi) simp
    finally show ?thesis .
  qed
  have z1: "z \<noteq> 1"
  proof
    assume "z = 1"
    then have "cos (2 * pi * (real n - real m) / real N) = 1"
      unfolding z_def by (simp add: complex_eq_iff)
    then obtain j :: int where j: "2 * pi * (real n - real m) / real N = real_of_int j * 2 * pi"
      unfolding cos_one_2pi_int by blast
    then have "pi * (real n - real m) = pi * (real_of_int j * real N)"
      using N by (simp add: field_simps)
    then have "real n - real m = real_of_int j * real N"
      unfolding mult_cancel_left by simp
    then have "real_of_int (int n - int m) = real_of_int (j * int N)" by simp
    then have e: "int n - int m = j * int N" by (simp only: of_int_eq_iff)
    have "\<bar>int n - int m\<bar> < int N" using assms by linarith
    with e have lt: "\<bar>j\<bar> * int N < int N" by (simp add: abs_mult)
    have "\<not> 1 \<le> \<bar>j\<bar>"
    proof
      assume "1 \<le> \<bar>j\<bar>"
      then have "1 * int N \<le> \<bar>j\<bar> * int N" by (rule mult_right_mono) simp
      with lt show False by simp
    qed
    then have "j = 0" by simp
    with e False show False by simp
  qed
  have "(\<Sum>k<N. z ^ k) = (z ^ N - 1) / (z - 1)"
    using z1 by (simp add: geometric_sum)
  then have "(\<Sum>k<N. z ^ k) = 0" using zN by simp
  then show ?thesis using False by (simp add: pow)
qed


lemma length_dft: "length (dft xs) = length xs"
  by (simp add: dft_def)

lemma dft_nth:
  "k < length xs \<Longrightarrow>
   dft xs ! k = (\<Sum>n<length xs. xs ! n * cis (- (2 * pi * real k * real n / real (length xs))))"
  by (simp add: dft_def interv_sum_list_conv_sum_set_nat atLeast0LessThan)

lemma idft_nth:
  "n < length ys \<Longrightarrow>
   idft ys ! n = (\<Sum>k<length ys. ys ! k * cis (2 * pi * real k * real n / real (length ys)))
                 / of_nat (length ys)"
  by (simp add: idft_def interv_sum_list_conv_sum_set_nat atLeast0LessThan)

lemma idft_dft: "idft (dft xs) = xs"
proof (rule nth_equalityI)
  show "length (idft (dft xs)) = length xs" by (simp add: idft_def dft_def)
next
  fix n assume "n < length (idft (dft xs))"
  then have n: "n < length xs" by (simp add: idft_def dft_def)
  define N where "N = length xs"
  have N: "0 < N" "n < N" using n by (auto simp: N_def)
  have tw: "cis (- (2 * pi * real k * real m / real N)) * cis (2 * pi * real k * real n / real N)
            = cis (2 * pi * real k * (real n - real m) / real N)" for k m
    by (simp add: cis_mult algebra_simps diff_divide_distrib)
  have "(\<Sum>k<N. dft xs ! k * cis (2 * pi * real k * real n / real N))
      = (\<Sum>k<N. \<Sum>m<N. xs ! m * cis (2 * pi * real k * (real n - real m) / real N))"
  proof (rule sum.cong[OF refl])
    fix k assume "k \<in> {..<N}"
    then have "k < length xs" by (simp add: N_def)
    then have "dft xs ! k * cis (2 * pi * real k * real n / real N)
       = (\<Sum>m<N. xs ! m * cis (- (2 * pi * real k * real m / real N)))
           * cis (2 * pi * real k * real n / real N)"
      by (simp only: dft_nth N_def)
    also have "\<dots> = (\<Sum>m<N. xs ! m * (cis (- (2 * pi * real k * real m / real N))
           * cis (2 * pi * real k * real n / real N)))"
      by (simp only: sum_distrib_right mult.assoc)
    also have "\<dots> = (\<Sum>m<N. xs ! m * cis (2 * pi * real k * (real n - real m) / real N))"
      by (simp only: tw)
    finally show "dft xs ! k * cis (2 * pi * real k * real n / real N)
       = (\<Sum>m<N. xs ! m * cis (2 * pi * real k * (real n - real m) / real N))" .
  qed
  also have "\<dots> = (\<Sum>m<N. \<Sum>k<N. xs ! m * cis (2 * pi * real k * (real n - real m) / real N))"
    by (rule sum.swap)
  also have "\<dots> = (\<Sum>m<N. xs ! m * (if n = m then of_nat N else 0))"
    using N by (simp add: sum_distrib_left[symmetric] root_of_unity_sum)
  also have "\<dots> = xs ! n * of_nat N"
    using N by (simp add: if_distrib[of "\<lambda>z. _ * z"] sum.delta' cong: if_cong)
  finally have "(\<Sum>k<N. dft xs ! k * cis (2 * pi * real k * real n / real N)) = xs ! n * of_nat N" .
  then show "idft (dft xs) ! n = xs ! n"
    using N n by (simp add: idft_nth length_dft N_def[symmetric])
qed

subsection \<open>Arrays of one dimension, the axes, the setters\<close>

lemma transpose_nd_array1: "transpose_nd (array1 xs) = array1 xs"
  by (simp add: transpose_nd_def array1_def map_nth)

lemma rows_of_single: "xs \<noteq> [] \<Longrightarrow> rows_of (length xs) xs = [xs]"
  by (simp add: rows_of_def)

lemma fft_array1: "xs \<noteq> [] \<Longrightarrow> fft (array1 xs) = Inr (array1 (dft xs))"
  by (simp add: fft_def along_last_def array1_def rows_of_single length_dft)

lemma length_idft: "length (idft xs) = length xs"
  by (simp add: idft_def)

lemma ifft_array1: "xs \<noteq> [] \<Longrightarrow> ifft (array1 xs) = Inr (array1 (idft xs))"
  by (simp add: ifft_def along_last_def array1_def rows_of_single length_idft)

lemma linspace_time:
  assumes "r \<noteq> 0"
  shows "linspace 0 (real n / r - 1 / r) n = map (\<lambda>k. real k / r) [0..<n]"
proof -
  consider "n = 0" | "n = 1" | "2 \<le> n" by linarith
  then show ?thesis
  proof cases
    case 3
    then obtain m where m: "n = Suc m" "0 < m" by (cases n) auto
    have "real n / r - 1 / r = real m / r"
      using m by (simp add: add_divide_distrib)
    moreover have "real k * (real m / r / real m) = real k / r" for k
      using m by simp
    ultimately show ?thesis
      using m by (simp add: linspace_def)
  qed (simp_all add: linspace_def)
qed

lemma arange_time:
  assumes "r \<noteq> 0"
  shows "arange 0 (real n / r) (1 / r) = map (\<lambda>k. real k / r) [0..<n]"
  using assms by (simp add: arange_def)

lemma below_float_overflow: "(2 :: real) ^ 1023 \<le> float_overflow"
proof -
  have "(2 :: real) ^ 1024 = 2 * 2 ^ 1023" by simp
  moreover have "(2 :: real) ^ 970 \<le> 2 ^ 1023" by (rule power_increasing) simp_all
  ultimately show ?thesis by (simp add: float_overflow_def)
qed

lemma freq_stop:
  assumes "as_number sr = Some r" "\<bar>r\<bar> < 2 ^ 1023" "0 < n"
  shows "\<exists>p. py_mult (int n - 1) sr = Inr p \<and>
             truediv_by_count p n = Inr ((real n - 1) * r / real n)"
proof -
  have le: "\<bar>(real n - 1) * r / real n\<bar> \<le> \<bar>r\<bar>"
  proof -
    have "\<bar>(real n - 1) * r / real n\<bar> = ((real n - 1) / real n) * \<bar>r\<bar>"
      using assms(3) by (simp add: abs_mult)
    also have "\<dots> \<le> 1 * \<bar>r\<bar>"
      using assms(3) by (intro mult_right_mono) simp_all
    finally show ?thesis by simp
  qed
  then have small: "\<not> float_overflow \<le> \<bar>(real n - 1) * r / real n\<bar>"
    using assms(2) below_float_overflow by linarith
  show ?thesis
  proof (cases sr)
    case (PInt i)
    with assms(1) have r: "r = real_of_int i" by simp
    have eq: "real_of_int ((int n - 1) * i) / real n = (real n - 1) * r / real n"
      by (simp add: r)
    have "py_mult (int n - 1) sr = Inr (PInt ((int n - 1) * i))"
      by (simp add: PInt py_mult_def)
    moreover have "truediv_by_count (PInt ((int n - 1) * i)) n = Inr ((real n - 1) * r / real n)"
      unfolding truediv_by_count_def pyval.case eq using small assms(3) by simp
    ultimately show ?thesis by blast
  next
    case (PFloat x)
    with assms(1,3) show ?thesis
      by (simp add: py_mult_def truediv_by_count_def)
  qed (use assms(1) in simp_all)
qed

lemma freq_stop_empty:
  assumes "as_number sr = Some r"
  shows "\<exists>p. py_mult (int 0 - 1) sr = Inr p \<and> truediv_by_count p 0 = Inl ZeroDivisionError"
  using assms by (cases sr) (simp_all add: py_mult_def truediv_by_count_def)

lemma timeSignal_set_ok:
  assumes "shape a = n # rest" "0 < n" "as_number (samplingRate s) = Some r" "r \<noteq> 0"
    and "\<bar>r\<bar> < 2 ^ 1023"
  shows "timeSignal_set s a =
    (None, s\<lparr>timeSignal := Some a, numSamples := PInt (int n), fftDegree := Degree (log 2 (real n)),
             timeLength := PFloat (real n / r),
             timeVector := Some (map (\<lambda>k. real k / r) [0..<n]),
             freqVector := Some (linspace 0 ((real n - 1) * r / real n) n),
             freqSignal := Some (transpose_nd
                (NDArray (rev (shape a)) (concat (map dft (rows_of n (flat (transpose_nd a)))))))\<rparr>)"
proof -
  from freq_stop [OF assms(3,5,2)] obtain p where
    p: "py_mult (int n - 1) (samplingRate s) = Inr p"
       "truediv_by_count p n = Inr ((real n - 1) * r / real n)"
    by blast
  show ?thesis
    using assms p
    by (simp add: timeSignal_set_def len_def log2_def py_truediv_def fft_def
        along_last_def transpose_nd_def linspace_time Let_def)
qed


lemma timeSignal_set_empty:
  assumes "shape a = 0 # rest" "as_number (samplingRate s) = Some r"
  shows "timeSignal_set s a =
    (Some ZeroDivisionError,
     if r = 0 then s\<lparr>timeSignal := Some a, numSamples := PInt 0, fftDegree := NegInf\<rparr>
     else s\<lparr>timeSignal := Some a, numSamples := PInt 0, fftDegree := NegInf,
             timeLength := PFloat 0, timeVector := Some []\<rparr>)"
proof -
  from freq_stop_empty [OF assms(2)] obtain p where
    p: "py_mult (int 0 - 1) (samplingRate s) = Inr p"
       "truediv_by_count p 0 = Inl ZeroDivisionError"
    by blast
  show ?thesis
    using assms p
    by (simp add: timeSignal_set_def len_def log2_def py_truediv_def linspace_def Let_def)
qed

subsection \<open>The constructor\<close>

lemma ifft_empty: "ifft (array1 []) = Inl ValueError"
  by (simp add: ifft_def along_last_def array1_def)

lemma ndim_array1: "ndim (array1 xs) = 1"
  by (simp add: ndim_def array1_def)

lemma freqSignal_set_empty1:
  "freqSignal_set s (array1 []) = (Some ValueError, s\<lparr>freqSignal := Some (array1 [])\<rparr>)"
  by (simp add: freqSignal_set_def transpose_nd_array1 ifft_empty)

lemma freqSignal_set_array1:
  assumes "ys \<noteq> []" "as_number (samplingRate s) = Some r" "r \<noteq> 0"
    and "\<bar>r\<bar> < 2 ^ 1023"
  shows "freqSignal_set s (array1 ys) =
    (None, s\<lparr>freqSignal := Some (array1 ys),
             timeSignal := Some (array1 (map (\<lambda>z. complex_of_real (Re z)) (idft ys))),
             numSamples := PInt (int (length ys)),
             fftDegree := Degree (log 2 (real (length ys))),
             timeLength := PFloat (real (length ys) / r),
             timeVector := Some (map (\<lambda>k. real k / r) [0..<length ys]),
             freqVector := Some (linspace 0 ((real (length ys) - 1) * r / real (length ys)) (length ys))\<rparr>)"
proof -
  have t: "transpose_nd (map_nd (\<lambda>z. complex_of_real (Re z)) (array1 (idft ys)))
           = array1 (map (\<lambda>z. complex_of_real (Re z)) (idft ys))"
    using transpose_nd_array1 [of "map (\<lambda>z. complex_of_real (Re z)) (idft ys)"]
    by (simp add: map_nd_def array1_def)
  have l: "len (array1 (map (\<lambda>z. complex_of_real (Re z)) (idft ys))) = Inr (length ys)"
    by (simp add: len_def array1_def length_idft)
  have n: "0 < length ys" using assms(1) by simp
  from freq_stop [OF assms(2,4) n] obtain p where
    p: "py_mult (int (length ys) - 1) (samplingRate s) = Inr p"
       "truediv_by_count p (length ys) = Inr ((real (length ys) - 1) * r / real (length ys))"
    by blast
  show ?thesis
    using assms p
    by (simp add: freqSignal_set_def transpose_nd_array1 ifft_array1 t l log2_def
        py_truediv_def arange_time Let_def)
qed

lemma PyTTaObj_init_rate:
  "PyTTaObj_init [] [(''samplingRate'', sr)] =
     Inr \<lparr> samplingRate = sr, fftDegree = Given PNone, timeLength = PNone, numSamples = PNone,
           freqMin = PNone, freqMax = PNone, comment = PStr ''No comments.'',
           domain = PNone, timeVector = None, freqVector = None,
           timeSignal = None, freqSignal = None \<rparr>"
  by (simp add: PyTTaObj_init_def param_names_def param_defaults_def bind_param_def)

lemma SignalObj_init_time:
  assumes "shape a = n # rest" "length rest \<le> 1" "0 < n" "as_number sr = Some r" "r \<noteq> 0"
    and "\<bar>r\<bar> < 2 ^ 1023"
  shows "SignalObj_init a (PStr ''time'') [] [(''samplingRate'', sr)] =
     Inr \<lparr> samplingRate = sr, fftDegree = Degree (log 2 (real n)),
           timeLength = PFloat (real n / r), numSamples = PInt (int n),
           freqMin = PNone, freqMax = PNone, comment = PStr ''No comments.'',
           domain = PStr ''time'',
           timeVector = Some (map (\<lambda>k. real k / r) [0..<n]),
           freqVector = Some (linspace 0 ((real n - 1) * r / real n) n),
           timeSignal = Some a,
           freqSignal = Some (transpose_nd
                (NDArray (rev (shape a)) (concat (map dft (rows_of n (flat (transpose_nd a))))))) \<rparr>"
  using assms
  by (simp add: SignalObj_init_def ndim_def PyTTaObj_init_rate raise_or_def
      timeSignal_set_ok [where n = n and rest = rest and r = r])

lemma SignalObj_init_time1:
  assumes "xs \<noteq> []" "as_number sr = Some r" "r \<noteq> 0" "\<bar>r\<bar> < 2 ^ 1023"
  shows "SignalObj_init (array1 xs) (PStr ''time'') [] [(''samplingRate'', sr)] =
     Inr \<lparr> samplingRate = sr, fftDegree = Degree (log 2 (real (length xs))),
           timeLength = PFloat (real (length xs) / r), numSamples = PInt (int (length xs)),
           freqMin = PNone, freqMax = PNone, comment = PStr ''No comments.'',
           domain = PStr ''time'',
           timeVector = Some (map (\<lambda>k. real k / r) [0..<length xs]),
           freqVector = Some (linspace 0 ((real (length xs) - 1) * r / real (length xs)) (length xs)),
           timeSignal = Some (array1 xs),
           freqSignal = Some (array1 (dft xs)) \<rparr>"
proof -
  have "transpose_nd (NDArray [length xs] (dft xs)) = NDArray [length xs] (dft xs)"
    using transpose_nd_array1 [of "dft xs"] by (simp add: array1_def length_dft)
  moreover have "flat (transpose_nd (array1 xs)) = xs"
    by (simp add: transpose_nd_array1) (simp add: array1_def)
  ultimately show ?thesis
    using assms SignalObj_init_time [of "array1 xs" "length xs" "[]" sr r]
    by (simp add: array1_def rows_of_single length_dft)
qed

lemma SignalObj_init_freq1:
  assumes "ys \<noteq> []" "as_number sr = Some r" "r \<noteq> 0" "\<bar>r\<bar> < 2 ^ 1023"
  shows "SignalObj_init (array1 ys) (PStr ''freq'') [] [(''samplingRate'', sr)] =
     Inr \<lparr> samplingRate = sr, fftDegree = Degree (log 2 (real (length ys))),
           timeLength = PFloat (real (length ys) / r), numSamples = PInt (int (length ys)),
           freqMin = PNone, freqMax = PNone, comment = PStr ''No comments.'',
           domain = PStr ''freq'',
           timeVector = Some (map (\<lambda>k. real k / r) [0..<length ys]),
           freqVector = Some (linspace 0 ((real (length ys) - 1) * r / real (length ys)) (length ys)),
           timeSignal = Some (array1 (map (\<lambda>z. complex_of_real (Re z)) (idft ys))),
           freqSignal = Some (array1 ys) \<rparr>"
  using assms
  by (simp add: SignalObj_init_def ndim_array1 PyTTaObj_init_rate raise_or_def
      freqSignal_set_array1 [where r = r])

subsection \<open>Small concrete arrays\<close>

lemma cis_mpi: "cis (- pi) = -1" by (simp add: cis.ctr complex_eq_iff)
lemma dft1: "dft [a] = [a]" by (simp add: dft_def)
lemma idft1: "idft [a] = [a]" by (simp add: idft_def)
lemma dft2: "dft [a, b] = [a + b, a - b]"
  by (simp add: dft_def upt_rec numeral_2_eq_2 cis_mpi)
lemma idft2: "idft [a, b] = [(a + b) / 2, (a - b) / 2]"
  by (simp add: idft_def upt_rec numeral_2_eq_2)

lemma upt2: "[0..<2] = [0, 1]" by (simp add: upt_rec numeral_2_eq_2)
lemma upt4: "[0..<4] = [0, 1, 2, 3]" by (simp add: upt_rec eval_nat_numeral)

lemma tr22: "transpose_nd (NDArray [2, 2] [a, b, c, d]) = NDArray [2, 2] [a, c, b, d]"
  by (simp add: transpose_nd_def upt4)

lemma rows22: "rows_of 2 [a, b, c, d] = [[a, b], [c, d]]"
  by (simp add: rows_of_def upt2)

lemma linspace2: "linspace a b 2 = [a, b]"
  by (simp add: linspace_def)

lemma init22:
  "SignalObj_init (array2 2 [[a, b], [c, d]]) (PStr ''time'') [] [(''samplingRate'', PInt 8)] =
     Inr \<lparr> samplingRate = PInt 8, fftDegree = Degree 1,
           timeLength = PFloat (1 / 4), numSamples = PInt 2,
           freqMin = PNone, freqMax = PNone, comment = PStr ''No comments.'',
           domain = PStr ''time'',
           timeVector = Some [0, 1 / 8],
           freqVector = Some [0, 4],
           timeSignal = Some (NDArray [2, 2] [a, b, c, d]),
           freqSignal = Some (NDArray [2, 2] [a + c, b + d, a - c, b - d]) \<rparr>"
proof -
  have a: "array2 2 [[a, b], [c, d]] = NDArray [2, 2] [a, b, c, d]"
    by (simp add: array2_def)
  show ?thesis
    unfolding a
    by (subst SignalObj_init_time [where n = 2 and rest = "[2]" and r = 8])
       (simp_all add: tr22 rows22 dft2 upt2 linspace2)
qed

lemma init2:
  "SignalObj_init (array1 [a, b]) (PStr ''time'') [] [(''samplingRate'', PInt 8)] =
     Inr \<lparr> samplingRate = PInt 8, fftDegree = Degree 1,
           timeLength = PFloat (1 / 4), numSamples = PInt 2,
           freqMin = PNone, freqMax = PNone, comment = PStr ''No comments.'',
           domain = PStr ''time'',
           timeVector = Some [0, 1 / 8],
           freqVector = Some [0, 4],
           timeSignal = Some (array1 [a, b]),
           freqSignal = Some (array1 [a + b, a - b]) \<rparr>"
proof -
  have l: "length [a, b] = 2" by simp
  show ?thesis
    by (subst SignalObj_init_time1 [where r = 8])
       (simp_all only: l dft2 upt2 linspace2, simp_all)
qed

lemma new_result_8:
  "samplingRate s = PInt 8 \<Longrightarrow> new_result s =
     Inr \<lparr> samplingRate = PInt 8, fftDegree = Degree 0,
           timeLength = PFloat (1 / 8), numSamples = PInt 1,
           freqMin = PNone, freqMax = PNone, comment = PStr ''No comments.'',
           domain = PStr ''time'',
           timeVector = Some [0],
           freqVector = Some [0],
           timeSignal = Some (array1 [0]),
           freqSignal = Some (array1 [0]) \<rparr>"
  by (simp add: new_result_def SignalObj_init_time1 [where r = 8] dft1 linspace_def)


lemma getcol22:
  "getcol (NDArray [2, 2] [a, b, c, d]) 0 = Inr (NDArray [2] [a, c])"
  "getcol (NDArray [2, 2] [a, b, c, d]) 1 = Inr (NDArray [2] [b, d])"
  by (simp_all add: getcol_def upt2)

lemma broadcast_op2:
  "broadcast_op f (NDArray [2] [a, b]) (NDArray [2] [c, d]) = Inr (NDArray [2] [f a c, f b d])"
  by (simp add: broadcast_op_def broadcast_shapes_def bindex_def upt2)

lemma setcol_1d: "setcol (array1 xs) k v = Inl IndexError"
  by (simp add: setcol_def array1_def)

lemma init1:
  "SignalObj_init (array1 [a]) (PStr ''time'') [] [(''samplingRate'', PInt 8)] =
     Inr \<lparr> samplingRate = PInt 8, fftDegree = Degree 0,
           timeLength = PFloat (1 / 8), numSamples = PInt 1,
           freqMin = PNone, freqMax = PNone, comment = PStr ''No comments.'',
           domain = PStr ''time'',
           timeVector = Some [0],
           freqVector = Some [0],
           timeSignal = Some (array1 [a]),
           freqSignal = Some (array1 [a]) \<rparr>"
  by (simp add: SignalObj_init_time1 [where r = 8] dft1 linspace_def)

lemma getcol22_Suc:
  "getcol (NDArray [2, 2] [a, b, c, d]) (Suc 0) = Inr (NDArray [2] [b, d])"
  using getcol22(2) [of a b c d] by simp

lemma len_array1: "len (array1 xs) = Inr (length xs)"
  by (simp add: len_def array1_def)

lemma len_shape: "len a = Inr n \<Longrightarrow> \<exists>rest. shape a = n # rest"
  by (auto simp: len_def split: list.splits)

lemma timeSignal_set_array1:
  assumes "xs \<noteq> []" "as_number (samplingRate s) = Some r" "r \<noteq> 0"
    and "\<bar>r\<bar> < 2 ^ 1023"
  shows "fst (timeSignal_set s (array1 xs)) = None"
    and "freqSignal (snd (timeSignal_set s (array1 xs))) = Some (array1 (dft xs))"
    and "timeSignal (snd (timeSignal_set s (array1 xs))) = Some (array1 xs)"
proof -
  have sh: "shape (array1 xs) = length xs # []" by (simp add: array1_def)
  have n: "0 < length xs" using assms(1) by simp
  have tr: "transpose_nd (NDArray [length xs] (dft xs)) = NDArray [length xs] (dft xs)"
    using transpose_nd_array1 [of "dft xs"] by (simp add: array1_def length_dft)
  have fl: "flat (transpose_nd (array1 xs)) = xs"
    by (simp add: transpose_nd_array1) (simp add: array1_def)
  note ok = timeSignal_set_ok [OF sh n assms(2,3,4)]
  show "fst (timeSignal_set s (array1 xs)) = None" by (simp add: ok)
  show "freqSignal (snd (timeSignal_set s (array1 xs))) = Some (array1 (dft xs))"
    using assms(1) by (simp add: ok fl sh rows_of_single tr) (simp add: array1_def length_dft)
  show "timeSignal (snd (timeSignal_set s (array1 xs))) = Some (array1 xs)" by (simp add: ok)
qed

lemma dft_nonempty: "xs \<noteq> [] \<Longrightarrow> dft xs \<noteq> []"
  using length_dft [of xs] by auto

lemma freqSignal_set2:
  assumes "samplingRate s = PInt 8"
  shows "freqSignal_set s (NDArray [2] [a, b]) =
    (None, s\<lparr>freqSignal := Some (NDArray [2] [a, b]),
             timeSignal := Some (NDArray [2] [complex_of_real (Re ((a + b) / 2)),
                                             complex_of_real (Re ((a - b) / 2))]),
             numSamples := PInt 2,
             fftDegree := Degree 1,
             timeLength := PFloat (1 / 4),
             timeVector := Some [0, 1 / 8],
             freqVector := Some [0, 4]\<rparr>)"
proof -
  have a: "NDArray [2] [a, b] = array1 [a, b]" by (simp add: array1_def)
  have l: "length [a, b] = 2" by simp
  show ?thesis
    unfolding a
    by (subst freqSignal_set_array1 [where r = 8])
       (simp_all only: l idft2 upt2 linspace2 assms, simp_all add: array1_def)
qed

subsection \<open>A sampling rate beyond the range of floats\<close>

text \<open>
  The default signal has one sample, so \<^verbatim>\<open>SignalObj(samplingRate=10**309)\<close> is constructed:
  \<open>(1 - 1) * 10\<^sup>3\<^sup>0\<^sup>9 / 1\<close> is 0. Assigning two samples to its \<^verbatim>\<open>timeSignal\<close> then raises
  \<^verbatim>\<open>OverflowError\<close>, at the end point of the frequency vector.
\<close>

lemma huge_rate_is_constructed:
  "\<not> isl (SignalObj_init (array1 [0]) (PStr ''time'') [] [(''samplingRate'', PInt (10 ^ 309))])"
proof -
  have "fst (timeSignal_set s (array1 [0])) = None" if "samplingRate s = PInt (10 ^ 309)" for s
    using that
    by (simp add: timeSignal_set_def len_array1 log2_def py_truediv_def py_mult_def
        truediv_by_count_def float_overflow_def transpose_nd_array1 fft_array1 Let_def)
  note h = this
  define s0 where "s0 =
     \<lparr> samplingRate = PInt (10 ^ 309), fftDegree = Given PNone, timeLength = PNone,
       numSamples = PNone, freqMin = PNone, freqMax = PNone, comment = PStr ''No comments.'',
       domain = PStr ''time'', timeVector = None, freqVector = None,
       timeSignal = None, freqSignal = None \<rparr>"
  have 1: "SignalObj_init (array1 [0]) (PStr ''time'') [] [(''samplingRate'', PInt (10 ^ 309))]
             = raise_or (timeSignal_set s0 (array1 [0]))"
    by (simp add: SignalObj_init_def ndim_array1 PyTTaObj_init_rate s0_def)
  have 2: "fst (timeSignal_set s0 (array1 [0])) = None"
    by (rule h) (simp add: s0_def)
  show ?thesis
    unfolding 1 using 2
    by (cases "timeSignal_set s0 (array1 [0])") (simp add: raise_or_def)
qed

lemma huge_rate_overflows:
  assumes "samplingRate s = PInt (10 ^ 309)"
  shows "fst (timeSignal_set s (array1 [1, 2])) = Some OverflowError"
proof -
  have "float_overflow \<le> \<bar>real_of_int ((2 - 1) * 10 ^ 309) / 2\<bar>"
    by (simp add: float_overflow_def)
  then show ?thesis
    using assms
    by (simp add: timeSignal_set_def len_array1 log2_def py_truediv_def py_mult_def
        truediv_by_count_def Let_def)
qed

subsection \<open>The round trip in exact arithmetic\<close>

text \<open>
  Without rounding, a buffer of one dimension comes back unchanged from the setter of
  \<^verbatim>\<open>timeSignal\<close> followed by a construction in the frequency domain. This is a fact of the
  exact transforms \<open>dft\<close> and \<open>idft\<close>; it says nothing of the rounding of float64.
\<close>

lemma round_trip_exact:
  assumes "x \<noteq> []" and "as_number (samplingRate s) = Some r" and "r \<noteq> 0"
    and "\<bar>r\<bar> < 2 ^ 1023"
  shows "fst (timeSignal_set s (array1 (map complex_of_real x))) = None \<and>
         freqSignal (snd (timeSignal_set s (array1 (map complex_of_real x))))
           = Some (array1 (dft (map complex_of_real x))) \<and>
         map_sum id timeSignal
           (SignalObj_init (the (freqSignal (snd (timeSignal_set s (array1 (map complex_of_real x))))))
              (PStr ''freq'') [] [(''samplingRate'', samplingRate s)])
           = Inr (Some (array1 (map complex_of_real x)))"
proof -
  let ?x = "map complex_of_real x"
  have x: "?x \<noteq> []" using assms(1) by simp
  have "SignalObj_init (array1 (dft ?x)) (PStr ''freq'') [] [(''samplingRate'', samplingRate s)]
      = Inr \<lparr> samplingRate = samplingRate s, fftDegree = Degree (log 2 (real (length (dft ?x)))),
           timeLength = PFloat (real (length (dft ?x)) / r), numSamples = PInt (int (length (dft ?x))),
           freqMin = PNone, freqMax = PNone, comment = PStr ''No comments.'',
           domain = PStr ''freq'',
           timeVector = Some (map (\<lambda>k. real k / r) [0..<length (dft ?x)]),
           freqVector = Some (linspace 0 ((real (length (dft ?x)) - 1) * r / real (length (dft ?x))) (length (dft ?x))),
           timeSignal = Some (array1 (map (\<lambda>z. complex_of_real (Re z)) (idft (dft ?x)))),
           freqSignal = Some (array1 (dft ?x)) \<rparr>"
    by (rule SignalObj_init_freq1 [OF dft_nonempty [OF x] assms(2,3,4)])
  then have "map_sum id timeSignal
      (SignalObj_init (array1 (dft ?x)) (PStr ''freq'') [] [(''samplingRate'', samplingRate s)])
      = Inr (Some (array1 ?x))"
    by (simp add: idft_dft comp_def)
  then show ?thesis
    by (simp add: timeSignal_set_array1 [OF x assms(2,3,4)])
qed

subsection \<open>\<^verbatim>\<open>__add__\<close> and \<^verbatim>\<open>__sub__\<close> never return\<close>

text \<open>Whatever the operands, the assignment \<^verbatim>\<open>result.domain = 'time'\<close> (or a statement
  before it) raises.\<close>

lemma time_op_raises: "isl (time_op f self other)"
  by (cases other)
     (auto simp: time_op_def bindE_def raise_or_def domain_set_def split: sum.splits)

subsection \<open>\<^verbatim>\<open>__truediv__\<close> on two operands of more than one dimension never returns\<close>

text \<open>
  \<open>result\<close> is created from the default array \<^verbatim>\<open>np.array([0])\<close>, so its \<^verbatim>\<open>freqSignal\<close> has
  one dimension, and the first store into \<^verbatim>\<open>result.freqSignal[:, i + channelB]\<close> raises
  (unless a statement before it has raised): with at least one channel on each side the
  operator returns no result.
\<close>

lemma timeSignal_set_freq_shape:
  "timeSignal_set s a = (None, s') \<Longrightarrow> \<exists>F. freqSignal s' = Some F \<and> shape F = shape a"
  by (auto simp: timeSignal_set_def Let_def fft_def along_last_def transpose_nd_def
      split: sum.splits if_splits list.splits)

lemma new_result_freq_1d:
  assumes "new_result self = Inr r"
  shows "\<exists>F. freqSignal r = Some F \<and> shape F = [1]"
proof -
  from assms obtain s0 where "timeSignal_set s0 (array1 [0]) = (None, r)"
    by (auto simp: new_result_def SignalObj_init_def raise_or_def Let_def ndim_def
        split: sum.splits if_splits prod.splits option.splits)
  from timeSignal_set_freq_shape [OF this] show ?thesis
    by (simp add: array1_def)
qed

lemma bindE_isl: "isl m \<Longrightarrow> isl (bindE m f)"
  by (cases m) (simp_all add: bindE_def)

lemma bindE_Inr: "bindE (Inr x) f = f x"
  by (simp add: bindE_def)

lemma truediv_inner_raises:
  assumes "freqSignal result = Some F" "shape F = [1]"
  shows "isl (truediv_inner self other channelA i (channelB # rest) result)"
  using assms
  by (auto simp: bindE_def attr_def setcol_def split: sum.splits)

lemma truediv_both_multi_raises:
  assumes "size_check self = Inr da" "1 < da" "size_check other = Inr db" "1 < db"
    and "num_channels self = Inr n" "0 < n" "num_channels other = Inr m" "0 < m"
  shows "isl (truediv self (Signal other))"
proof (cases "new_result self")
  case (Inl e)
  then show ?thesis by (simp add: truediv_def bindE_def)
next
  case (Inr r0)
  then obtain F where F: "freqSignal r0 = Some F" "shape F = [1]"
    using new_result_freq_1d by blast
  from assms(6) have n: "[0..<n] = 0 # [1..<n]" by (simp add: upt_rec)
  from assms(8) have m: "[0..<m] = 0 # [1..<m]" by (simp add: upt_rec)
  have "isl (truediv_inner self other 0 0 (0 # [1..<m]) (r0\<lparr>domain := PStr ''freq''\<rparr>))"
    by (rule truediv_inner_raises [where F = F]) (simp_all add: F)
  then have "isl (truediv_outer self other 0 [0..<n] (r0\<lparr>domain := PStr ''freq''\<rparr>))"
    unfolding n truediv_outer.simps assms(7) bindE_Inr m by (rule bindE_isl)
  then show ?thesis
    using assms Inr by (simp add: truediv_def bindE_Inr Let_def)
qed

section \<open>The claims\<close>

text \<open>
  The concrete objects used below are built by the constructor at a sampling rate of 8:
  \<open>projr (SignalObj_init a (PStr ''time'') [] [(''samplingRate'', PInt 8)])\<close> is the object
  that \<^verbatim>\<open>SignalObj(a, 'time', samplingRate=8)\<close> returns.
\<close>

text \<open>
  \<^bold>\<open>C9.\<close> When the right operand is not a \<^verbatim>\<open>SignalObj\<close>, each of the three operators
  raises \<^verbatim>\<open>TypeError\<close> (the spec's \<open>TypeOperandError\<close>: the source raises
  \<^verbatim>\<open>TypeError("A SignalObj can only operate with other alike")\<close>). It is the first
  statement of each operator, so nothing has been computed by then, whatever the left
  operand is.
\<close>

theorem operators_reject_other_types:
  "truediv self (NotSignal v) = Inl TypeError \<and>
   add self (NotSignal v) = Inl TypeError \<and>
   sub self (NotSignal v) = Inl TypeError"
  by (simp add: truediv_def add_def sub_def time_op_def)



text \<open>
  \<^bold>\<open>C3.\<close> As stated the claim fails: no dedicated error exists for an empty buffer. On an
  object built at sampling rate 8 from two samples, assigning the empty buffer to
  \<^verbatim>\<open>timeSignal\<close> raises \<^verbatim>\<open>ZeroDivisionError\<close> (from the division by \<^verbatim>\<open>numSamples\<close> in the
  frequency vector), and by then \<^verbatim>\<open>fftDegree\<close> holds \<^verbatim>\<open>-inf\<close>.
\<close>

theorem empty_buffer_counterexample:
  "fst (timeSignal_set
     (projr (SignalObj_init (array1 [1, 2]) (PStr ''time'') [] [(''samplingRate'', PInt 8)]))
     (array1 [])) = Some ZeroDivisionError \<and>
   fftDegree (snd (timeSignal_set
     (projr (SignalObj_init (array1 [1, 2]) (PStr ''time'') [] [(''samplingRate'', PInt 8)]))
     (array1 []))) = NegInf"
  by (simp add: init2 timeSignal_set_empty [where rest = "[]" and r = 8] array1_def [of "[]"])

text \<open>
  \<^bold>\<open>C3, amended.\<close> Assigning a buffer of no samples to \<^verbatim>\<open>timeSignal\<close>, on an object whose
  sampling rate is a number, does not complete: it raises \<^verbatim>\<open>ZeroDivisionError\<close>, after
  \<^verbatim>\<open>numSamples\<close> has been set to 0 and \<^verbatim>\<open>fftDegree\<close> to \<^verbatim>\<open>-inf\<close>.
\<close>

theorem empty_buffer_raises_ZeroDivisionError:
  assumes "len a = Inr 0" and "as_number (samplingRate s) = Some r"
  shows "fst (timeSignal_set s a) = Some ZeroDivisionError \<and>
         numSamples (snd (timeSignal_set s a)) = PInt 0 \<and>
         fftDegree (snd (timeSignal_set s a)) = NegInf"
proof -
  from assms(1) obtain rest where sh: "shape a = 0 # rest"
    using len_shape by blast
  show ?thesis
    by (simp add: timeSignal_set_empty [OF sh assms(2)])
qed

theorem empty_buffer_raises_ZeroDivisionError_witness:
  "len (array1 ([] :: complex list)) = Inr 0 \<and>
   fst (timeSignal_set
     (projr (SignalObj_init (array1 [0]) (PStr ''time'') [] [(''samplingRate'', PInt 8)]))
     (array1 [])) = Some ZeroDivisionError"
proof -
  let ?s = "projr (SignalObj_init (array1 [0]) (PStr ''time'') [] [(''samplingRate'', PInt 8)])"
  have sr: "as_number (samplingRate ?s) = Some 8"
    by (simp add: init1)
  have l: "len (array1 ([] :: complex list)) = Inr 0"
    by (simp add: len_array1)
  show ?thesis
    using empty_buffer_raises_ZeroDivisionError [OF l sr] l by simp
qed

text \<open>
  \<^bold>\<open>C8.\<close> As stated the claim fails: the setters validate nothing before they assign. On an
  object of two samples, the assignment of the empty buffer to \<^verbatim>\<open>timeSignal\<close> raises and
  leaves \<^verbatim>\<open>numSamples\<close> at 0 where it was 2.
\<close>

theorem failed_assignment_counterexample:
  "fst (timeSignal_set
     (projr (SignalObj_init (array1 [1, 2]) (PStr ''time'') [] [(''samplingRate'', PInt 8)]))
     (array1 [])) \<noteq> None \<and>
   numSamples
     (projr (SignalObj_init (array1 [1, 2]) (PStr ''time'') [] [(''samplingRate'', PInt 8)]))
     = PInt 2 \<and>
   numSamples (snd (timeSignal_set
     (projr (SignalObj_init (array1 [1, 2]) (PStr ''time'') [] [(''samplingRate'', PInt 8)]))
     (array1 []))) = PInt 0"
  by (simp add: init2 timeSignal_set_empty [where rest = "[]" and r = 8] array1_def [of "[]"])

text \<open>
  \<^bold>\<open>C8, amended.\<close> A failed assignment is not undone. When the setter of \<^verbatim>\<open>timeSignal\<close>
  raises, the object holds the new buffer in \<^verbatim>\<open>timeSignal\<close> and still the old
  \<^verbatim>\<open>freqSignal\<close>; when the setter of \<^verbatim>\<open>freqSignal\<close> raises, the object holds the new buffer
  in \<^verbatim>\<open>freqSignal\<close> and still the old \<^verbatim>\<open>freqVector\<close>.
\<close>

theorem failed_assignment_keeps_new_buffer:
  "(timeSignal_set s a = (Some e, s') \<longrightarrow>
      timeSignal s' = Some a \<and> freqSignal s' = freqSignal s) \<and>
   (freqSignal_set s b = (Some e', s'') \<longrightarrow>
      freqSignal s'' = Some b \<and> freqVector s'' = freqVector s)"
proof
  show "timeSignal_set s a = (Some e, s') \<longrightarrow>
      timeSignal s' = Some a \<and> freqSignal s' = freqSignal s"
    by (auto simp: timeSignal_set_def Let_def split: sum.splits if_splits)
  show "freqSignal_set s b = (Some e', s'') \<longrightarrow>
      freqSignal s'' = Some b \<and> freqVector s'' = freqVector s"
    by (auto simp: freqSignal_set_def Let_def split: sum.splits if_splits)
qed

theorem failed_assignment_keeps_new_buffer_witness:
  "fst (timeSignal_set
     (projr (SignalObj_init (array1 [1, 2]) (PStr ''time'') [] [(''samplingRate'', PInt 8)]))
     (array1 [])) = Some ZeroDivisionError \<and>
   timeSignal (snd (timeSignal_set
     (projr (SignalObj_init (array1 [1, 2]) (PStr ''time'') [] [(''samplingRate'', PInt 8)]))
     (array1 []))) = Some (array1 []) \<and>
   freqSignal (snd (timeSignal_set
     (projr (SignalObj_init (array1 [1, 2]) (PStr ''time'') [] [(''samplingRate'', PInt 8)]))
     (array1 []))) = Some (array1 [3, - 1]) \<and>
   fst (freqSignal_set
     (projr (SignalObj_init (array1 [1, 2]) (PStr ''time'') [] [(''samplingRate'', PInt 8)]))
     (array1 [])) = Some ValueError \<and>
   freqSignal (snd (freqSignal_set
     (projr (SignalObj_init (array1 [1, 2]) (PStr ''time'') [] [(''samplingRate'', PInt 8)]))
     (array1 []))) = Some (array1 []) \<and>
   freqVector (snd (freqSignal_set
     (projr (SignalObj_init (array1 [1, 2]) (PStr ''time'') [] [(''samplingRate'', PInt 8)]))
     (array1 []))) = Some [0, 4]"
proof -
  let ?s = "projr (SignalObj_init (array1 [1, 2]) (PStr ''time'') [] [(''samplingRate'', PInt 8)])"
  have t: "fst (timeSignal_set ?s (array1 [])) = Some ZeroDivisionError"
    by (simp add: init2 timeSignal_set_empty [where rest = "[]" and r = 8] array1_def [of "[]"])
  have f: "fst (freqSignal_set ?s (array1 [])) = Some ValueError"
    by (simp add: freqSignal_set_empty1)
  have t': "timeSignal_set ?s (array1 []) = (Some ZeroDivisionError, snd (timeSignal_set ?s (array1 [])))"
    using t by (simp add: prod_eq_iff)
  have f': "freqSignal_set ?s (array1 []) = (Some ValueError, snd (freqSignal_set ?s (array1 [])))"
    using f by (simp add: prod_eq_iff)
  have old: "freqSignal ?s = Some (array1 [3, - 1])" "freqVector ?s = Some [0, 4]"
    by (simp_all add: init2)
  show ?thesis
    using failed_assignment_keeps_new_buffer
      [of ?s "array1 []" ZeroDivisionError "snd (timeSignal_set ?s (array1 []))"
          "array1 []" ValueError "snd (freqSignal_set ?s (array1 []))"]
      t f t' f' old
    by simp
qed

text \<open>
  \<^bold>\<open>C10.\<close> As stated the claim fails: \<^verbatim>\<open>SignalObj(np.array([1, 2]), '', 8, 'time')\<close> has a
  domain argument that is neither \<^verbatim>\<open>'time'\<close> nor \<^verbatim>\<open>'freq'\<close>, and completes, because
  \<^verbatim>\<open>domain or args[1]\<close> takes \<^verbatim>\<open>'time'\<close> from the extra positional arguments.
\<close>

theorem domain_fallback_counterexample:
  "map_sum id timeSignal
     (SignalObj_init (array1 [1, 2]) (PStr []) [PInt 8, PStr ''time''] [])
   = Inr (Some (array1 [1, 2]))"
  by (simp add: SignalObj_init_def ndim_def PyTTaObj_init_def param_names_def
      param_defaults_def bind_param_def raise_or_def
      timeSignal_set_ok [where n = 2 and rest = "[]" and r = 8] array1_def [of "[1, 2]"])

text \<open>
  \<^bold>\<open>C10, amended.\<close> Construction raises whenever the domain in effect is neither \<^verbatim>\<open>'time'\<close>
  nor \<^verbatim>\<open>'freq'\<close>: the domain argument when it is truthy, else the second extra positional
  argument, or none when there are fewer than two.
\<close>

theorem unknown_domain_raises:
  assumes "(truthy dmn \<and> dmn \<noteq> PStr ''time'' \<and> dmn \<noteq> PStr ''freq'') \<or>
           (\<not> truthy dmn \<and>
              (length args < 2 \<or> (args ! 1 \<noteq> PStr ''time'' \<and> args ! 1 \<noteq> PStr ''freq'')))"
  shows "isl (SignalObj_init a dmn args kwargs)"
  using assms
  by (auto simp: SignalObj_init_def raise_or_def domain_set_def Let_def
      split: sum.splits prod.splits option.splits)

theorem unknown_domain_raises_witness:
  "truthy (PStr ''frequency'') \<and>
   isl (SignalObj_init (array1 [1, 2]) (PStr ''frequency'') [] [(''samplingRate'', PInt 8)])"
  using unknown_domain_raises
    [of "PStr ''frequency''" "[]" "array1 [1, 2]" "[(''samplingRate'', PInt 8)]"]
  by simp

text \<open>With a buffer and a sampling rate that the setter accepts, the exception is the
  \<^verbatim>\<open>AttributeError\<close> of the assignment to the property \<^verbatim>\<open>domain\<close>.\<close>

lemma unknown_domain_AttributeError:
  "SignalObj_init (array1 [1, 2]) (PStr ''frequency'') [] [(''samplingRate'', PInt 8)]
     = Inl AttributeError"
  by (simp add: SignalObj_init_def ndim_def PyTTaObj_init_rate raise_or_def domain_set_def
      timeSignal_set_ok [where n = 2 and rest = "[]" and r = 8] array1_def [of "[1, 2]"])

text \<open>
  \<^bold>\<open>C7.\<close> As stated the claim fails: the setter of \<^verbatim>\<open>timeSignal\<close> checks no rank, and on an
  existing object it accepts a buffer of three dimensions; the constructor refuses the same
  buffer, with \<^verbatim>\<open>AttributeError\<close>.
\<close>

theorem rank3_setter_counterexample:
  "ndim (NDArray [2, 1, 1] [1, 2 :: complex]) = 3 \<and>
   fst (timeSignal_set
     (projr (SignalObj_init (array1 [0]) (PStr ''time'') [] [(''samplingRate'', PInt 8)]))
     (NDArray [2, 1, 1] [1, 2])) = None \<and>
   timeSignal (snd (timeSignal_set
     (projr (SignalObj_init (array1 [0]) (PStr ''time'') [] [(''samplingRate'', PInt 8)]))
     (NDArray [2, 1, 1] [1, 2]))) = Some (NDArray [2, 1, 1] [1, 2]) \<and>
   SignalObj_init (NDArray [2, 1, 1] [1, 2]) (PStr ''time'') [] [(''samplingRate'', PInt 8)]
     = Inl AttributeError"
proof -
  let ?s = "projr (SignalObj_init (array1 [0]) (PStr ''time'') [] [(''samplingRate'', PInt 8)])"
  let ?c = "NDArray [2, 1, 1] [1, 2 :: complex]"
  have 1: "ndim ?c = 3" by (simp add: ndim_def)
  have sr: "as_number (samplingRate ?s) = Some 8" by (simp add: init1)
  have sh: "shape ?c = 2 # [1, 1]" by simp
  note ok = timeSignal_set_ok [OF sh _ sr]
  have 2: "fst (timeSignal_set ?s ?c) = None" by (subst ok) simp_all
  have 3: "timeSignal (snd (timeSignal_set ?s ?c)) = Some ?c" by (subst ok) simp_all
  have 4: "SignalObj_init ?c (PStr ''time'') [] [(''samplingRate'', PInt 8)] = Inl AttributeError"
    using 1 by (simp add: SignalObj_init_def)
  from 1 2 3 4 show ?thesis by (intro conjI)
qed

text \<open>
  \<^bold>\<open>C7, amended.\<close> The constructor refuses every buffer of more than two dimensions, with
  the \<^verbatim>\<open>AttributeError\<close> whose message says that no object handles arrays of more than
  two dimensions, whatever the other arguments; and it accepts, in the time domain and with
  a sampling rate that is a non-zero number below \<open>2\<^sup>1\<^sup>0\<^sup>2\<^sup>3\<close> in magnitude, every buffer of
  one or two dimensions that holds at least one sample.
\<close>

theorem constructor_checks_rank:
  "(2 < ndim a \<longrightarrow> SignalObj_init a dmn args kwargs = Inl AttributeError) \<and>
   (len b = Inr n \<and> 0 < n \<and> ndim b \<le> 2 \<and>
    as_number sr = Some r \<and> r \<noteq> 0 \<and> \<bar>r\<bar> < 2 ^ 1023 \<longrightarrow>
      \<not> isl (SignalObj_init b (PStr ''time'') [] [(''samplingRate'', sr)]))"
proof (intro conjI impI)
  assume "2 < ndim a"
  then show "SignalObj_init a dmn args kwargs = Inl AttributeError"
    by (simp add: SignalObj_init_def)
next
  assume h: "len b = Inr n \<and> 0 < n \<and> ndim b \<le> 2 \<and>
    as_number sr = Some r \<and> r \<noteq> 0 \<and> \<bar>r\<bar> < 2 ^ 1023"
  then obtain rest where sh: "shape b = n # rest"
    using len_shape by blast
  with h have "length rest \<le> 1" by (simp add: ndim_def)
  with h sh show "\<not> isl (SignalObj_init b (PStr ''time'') [] [(''samplingRate'', sr)])"
    by (simp add: SignalObj_init_time [where n = n and rest = rest and r = r])
qed

theorem constructor_checks_rank_witness:
  "2 < ndim (NDArray [2, 1, 1] [1, 2 :: complex]) \<and>
   SignalObj_init (NDArray [2, 1, 1] [1, 2]) (PStr ''time'') [] [(''samplingRate'', PInt 8)]
     = Inl AttributeError \<and>
   \<not> isl (SignalObj_init (array1 [1, 2]) (PStr ''time'') [] [(''samplingRate'', PInt 8)]) \<and>
   \<not> isl (SignalObj_init (array2 2 [[1, 2], [3, 5]]) (PStr ''time'') []
            [(''samplingRate'', PInt 8)])"
proof -
  let ?c = "NDArray [2, 1, 1] [1, 2 :: complex]"
  have c: "2 < ndim ?c" by (simp add: ndim_def)
  have b1: "len (array1 [1, 2 :: complex]) = Inr 2" "ndim (array1 [1, 2 :: complex]) \<le> 2"
    by (simp_all add: len_array1 ndim_array1)
  have b2: "len (array2 2 [[1, 2], [3, 5 :: complex]]) = Inr 2"
    "ndim (array2 2 [[1, 2], [3, 5 :: complex]]) \<le> 2"
    by (simp_all add: len_def ndim_def array2_def)
  show ?thesis
    using constructor_checks_rank [where a = ?c and b = "array1 [1, 2]" and n = 2
          and sr = "PInt 8" and r = 8
          and dmn = "PStr ''time''" and args = "[]" and kwargs = "[(''samplingRate'', PInt 8)]"]
      constructor_checks_rank [where a = ?c and b = "array2 2 [[1, 2], [3, 5]]" and n = 2
          and sr = "PInt 8" and r = 8
          and dmn = "PStr ''time''" and args = "[]" and kwargs = "[(''samplingRate'', PInt 8)]"]
      c b1 b2
    by simp
qed

text \<open>
  \<^bold>\<open>C2.\<close> The claim bounds the rounding error of NumPy's float64 transforms: the buffer
  that comes back from \<^verbatim>\<open>fft\<close> and \<^verbatim>\<open>ifft\<close> is within a relative tolerance of \<open>10\<^sup>-\<^sup>9\<close> of the
  one that went in. The arithmetic of this model is exact and has no rounding, so the
  claim has no statement here.
\<close>

text \<open>
  \<^bold>\<open>C1.\<close> The code does not do what the claim says. With the spec's own operands, \<open>A\<close> of
  channels \<open>[1, 1]\<close> and \<open>[2, 2]\<close> and \<open>B\<close> of channels \<open>[10, 10]\<close> and \<open>[20, 20]\<close> (two samples
  each, sampling rate 8), \<^verbatim>\<open>A / B\<close> raises \<^verbatim>\<open>IndexError\<close>: \<open>result\<close> is the default signal,
  whose \<^verbatim>\<open>freqSignal\<close> has one dimension, and the first store into
  \<^verbatim>\<open>result.freqSignal[:, 0]\<close> fails.
\<close>

theorem truediv_both_multichannel_raises:
  "truediv
     (projr (SignalObj_init (array2 2 [[1, 2], [1, 2]]) (PStr ''time'') [] [(''samplingRate'', PInt 8)]))
     (Signal (projr (SignalObj_init (array2 2 [[10, 20], [10, 20]]) (PStr ''time'') []
                       [(''samplingRate'', PInt 8)])))
   = Inl IndexError"
  by (simp add: init22 truediv_def new_result_8 bindE_def size_check_def num_channels_def
      attr_def ndim_def upt2 getcol22 broadcast_op2 np_divide_def setcol_1d)

text \<open>
  \<^bold>\<open>C5.\<close> The code does not do what the claim says. With \<open>A\<close> of samples \<open>[1, 2, 3]\<close> and
  \<open>B\<close> of samples \<open>[4, 5, 6]\<close> at the same sampling rate, \<^verbatim>\<open>A + B\<close> raises
  \<^verbatim>\<open>AttributeError\<close>, at \<^verbatim>\<open>result.domain = 'time'\<close>: \<^verbatim>\<open>domain\<close> is a property without a setter
  (\<^verbatim>\<open>__truediv__\<close> assigns \<^verbatim>\<open>result._domain\<close> instead).
\<close>

theorem add_single_channel_raises:
  "add
     (projr (SignalObj_init (array1 [1, 2, 3]) (PStr ''time'') [] [(''samplingRate'', PInt 8)]))
     (Signal (projr (SignalObj_init (array1 [4, 5, 6]) (PStr ''time'') []
                       [(''samplingRate'', PInt 8)])))
   = Inl AttributeError"
  by (simp add: add_def time_op_def SignalObj_init_time1 [where r = 8] new_result_8 bindE_def
      raise_or_def domain_set_def)

text \<open>
  \<^bold>\<open>C4.\<close> The code does not do what the claim says. \<open>A\<close> has the two channels \<open>[1, 3]\<close> and
  \<open>[2, 5]\<close>, \<open>B\<close> the single channel \<open>[3, 1]\<close>. \<^verbatim>\<open>A / B\<close> returns a \<^verbatim>\<open>freqSignal\<close> of one
  dimension, the quotient for the last channel of \<open>A\<close> only (each pass of the loop assigns
  the whole of \<^verbatim>\<open>result.freqSignal\<close>); \<^verbatim>\<open>B / A\<close> returns the quotient by channel 0 of \<open>A\<close>
  only (the loop runs over the channels of \<open>B\<close>); \<^verbatim>\<open>A + B\<close> and \<^verbatim>\<open>A - B\<close> raise
  \<^verbatim>\<open>AttributeError\<close>.
\<close>

theorem truediv_multi_by_single_keeps_one_channel:
  "map_sum id freqSignal
     (truediv
        (projr (SignalObj_init (array2 2 [[1, 2], [3, 5]]) (PStr ''time'') []
                  [(''samplingRate'', PInt 8)]))
        (Signal (projr (SignalObj_init (array1 [3, 1]) (PStr ''time'') []
                  [(''samplingRate'', PInt 8)]))))
   = Inr (Some (NDArray [2] [7 / 4, - 3 / 2])) \<and>
   map_sum id freqSignal
     (truediv
        (projr (SignalObj_init (array1 [3, 1]) (PStr ''time'') []
                  [(''samplingRate'', PInt 8)]))
        (Signal (projr (SignalObj_init (array2 2 [[1, 2], [3, 5]]) (PStr ''time'') []
                  [(''samplingRate'', PInt 8)]))))
   = Inr (Some (NDArray [2] [1, - 1])) \<and>
   add
     (projr (SignalObj_init (array2 2 [[1, 2], [3, 5]]) (PStr ''time'') []
               [(''samplingRate'', PInt 8)]))
     (Signal (projr (SignalObj_init (array1 [3, 1]) (PStr ''time'') []
               [(''samplingRate'', PInt 8)])))
   = Inl AttributeError \<and>
   sub
     (projr (SignalObj_init (array2 2 [[1, 2], [3, 5]]) (PStr ''time'') []
               [(''samplingRate'', PInt 8)]))
     (Signal (projr (SignalObj_init (array1 [3, 1]) (PStr ''time'') []
               [(''samplingRate'', PInt 8)])))
   = Inl AttributeError"
proof -
  let ?A = "projr (SignalObj_init (array2 2 [[1, 2], [3, 5]]) (PStr ''time'') []
                  [(''samplingRate'', PInt 8)])"
  let ?B = "projr (SignalObj_init (array1 [3, 1]) (PStr ''time'') []
                  [(''samplingRate'', PInt 8)])"
  have A: "?A = \<lparr> samplingRate = PInt 8, fftDegree = Degree 1,
           timeLength = PFloat (1 / 4), numSamples = PInt 2,
           freqMin = PNone, freqMax = PNone, comment = PStr ''No comments.'',
           domain = PStr ''time'', timeVector = Some [0, 1 / 8], freqVector = Some [0, 4],
           timeSignal = Some (NDArray [2, 2] [1, 2, 3, 5]),
           freqSignal = Some (NDArray [2, 2] [4, 7, - 2, - 3]) \<rparr>"
    by (simp add: init22)
  have B: "?B = \<lparr> samplingRate = PInt 8, fftDegree = Degree 1,
           timeLength = PFloat (1 / 4), numSamples = PInt 2,
           freqMin = PNone, freqMax = PNone, comment = PStr ''No comments.'',
           domain = PStr ''time'', timeVector = Some [0, 1 / 8], freqVector = Some [0, 4],
           timeSignal = Some (NDArray [2] [3, 1]),
           freqSignal = Some (NDArray [2] [4, 2]) \<rparr>"
    by (simp add: init2) (simp add: array1_def)
  have 1: "map_sum id freqSignal (truediv ?A (Signal ?B))
             = Inr (Some (NDArray [2] [7 / 4, - 3 / 2]))"
    unfolding A B
    by (simp add: truediv_def new_result_8 bindE_def size_check_def
        num_channels_def attr_def ndim_def upt2 getcol22 getcol22_Suc broadcast_op2 np_divide_def
        freqSignal_set2 raise_or_def finite_only_def)
  have 2: "map_sum id freqSignal (truediv ?B (Signal ?A))
             = Inr (Some (NDArray [2] [1, - 1]))"
    unfolding A B
    by (simp add: truediv_def new_result_8 bindE_def size_check_def
        num_channels_def attr_def ndim_def getcol22 getcol22_Suc broadcast_op2 np_divide_def
        freqSignal_set2 raise_or_def finite_only_def)
  have 3: "add ?A (Signal ?B) = Inl AttributeError"
    unfolding A B
    by (simp add: add_def time_op_def new_result_8 bindE_def raise_or_def domain_set_def)
  have 4: "sub ?A (Signal ?B) = Inl AttributeError"
    unfolding A B
    by (simp add: sub_def time_op_def new_result_8 bindE_def raise_or_def domain_set_def)
  from 1 2 3 4 show ?thesis by (intro conjI)
qed

end
